theory Spec2Isabelle
  imports Complex_Main "HOL-Library.Word"
begin

section \<open>The admin files page: \<open>checkRouteQuery\<close>\<close>

text \<open>
  The page component reads \<open>route.query.page\<close> (vue-router: a string, \<open>null\<close>, an array
  of those, or \<open>undefined\<close> when the key is absent), tests it for truthiness, converts it
  with the built-in \<open>Number\<close> and asks the files store for a page:
  \<^verbatim>\<open>
  const checkRouteQuery = () => {
      if (route.query.page) {
          const pageNum = Number(route.query.page);
          if (!Number.isNaN(pageNum)) {
              void filesStore.get({ admin: true, page: pageNum });
              return;
          }
          void filesStore.get({ admin: true });
      }
      void filesStore.get({ admin: true });
  };
  \<close>
\<close>

subsection \<open>JavaScript values the function touches\<close>

text \<open>
  A query value; \<open>None\<close> at type \<open>query_value option\<close> is \<open>undefined\<close> (key absent).
  Characters are code units below 256.
\<close>

datatype query_value = QNull | QString string | QArray "string option list"

text \<open>
  The result of \<open>Number\<close>. A finite result carries the mathematical value of the numeric
  literal (ECMAScript's MV); the rounding of that value to an IEEE double is not part of
  the model. Whether the result is \<open>NaN\<close> is decided by the literal's grammar alone.
\<close>

datatype js_number = NaN | Infinity | NegInfinity | Num rat

definition isNaN :: "js_number \<Rightarrow> bool" where
  "isNaN n = (n = NaN)"

fun position :: "char \<Rightarrow> string \<Rightarrow> nat option" where
  "position c [] = None"
| "position c (d # ds) = (if c = d then Some 0 else map_option Suc (position c ds))"

definition digitValue :: "nat \<Rightarrow> char \<Rightarrow> nat option" where
  "digitValue radix c =
     (case position c ''0123456789abcdef'' of
        Some v \<Rightarrow> if v < radix then Some v else None
      | None \<Rightarrow>
          (case position c ''ABCDEF'' of
             Some v \<Rightarrow> if v + 10 < radix then Some (v + 10) else None
           | None \<Rightarrow> None))"

definition isDecimalDigit :: "char \<Rightarrow> bool" where
  "isDecimalDigit c = (digitValue 10 c \<noteq> None)"

fun digitsValue :: "nat \<Rightarrow> string \<Rightarrow> nat \<Rightarrow> nat option" where
  "digitsValue radix [] acc = Some acc"
| "digitsValue radix (c # cs) acc =
     (case digitValue radix c of
        None \<Rightarrow> None
      | Some v \<Rightarrow> digitsValue radix cs (acc * radix + v))"

text \<open>One or more digits of the radix; the empty string is no digit sequence.\<close>

definition digits :: "nat \<Rightarrow> string \<Rightarrow> nat option" where
  "digits radix s = (if s = [] then None else digitsValue radix s 0)"

text \<open>\<open>ExponentPart\<close>, optional: nothing, or \<open>e\<close>/\<open>E\<close>, an optional sign and digits.\<close>

definition exponentPart :: "string \<Rightarrow> int option" where
  "exponentPart s =
     (case s of
        [] \<Rightarrow> Some 0
      | c # t \<Rightarrow>
          if c = CHR ''e'' \<or> c = CHR ''E'' then
            (case t of
               [] \<Rightarrow> None
             | d # u \<Rightarrow>
                 if d = CHR ''+'' then map_option int (digits 10 u)
                 else if d = CHR ''-'' then map_option (\<lambda>n. - int n) (digits 10 u)
                 else map_option int (digits 10 t))
          else None)"

definition scale10 :: "nat \<Rightarrow> int \<Rightarrow> rat" where
  "scale10 m e = (if 0 \<le> e then of_nat m * 10 ^ nat e else of_nat m / 10 ^ nat (- e))"

definition mantissa :: "string \<Rightarrow> string \<Rightarrow> int \<Rightarrow> js_number" where
  "mantissa ds rest shift =
     (case digitsValue 10 ds 0 of
        None \<Rightarrow> NaN
      | Some m \<Rightarrow>
          (case exponentPart rest of
             None \<Rightarrow> NaN
           | Some e \<Rightarrow> Num (scale10 m (e - shift))))"

text \<open>
  \<open>StrUnsignedDecimalLiteral\<close>: \<open>Infinity\<close>, digits with an optional fraction, or a
  fraction alone, each with an optional exponent.
\<close>

definition strUnsignedDecimalLiteral :: "string \<Rightarrow> js_number" where
  "strUnsignedDecimalLiteral s =
     (if s = ''Infinity'' then Infinity
      else
        (let ip = takeWhile isDecimalDigit s; r1 = dropWhile isDecimalDigit s in
         case r1 of
           [] \<Rightarrow> if ip = [] then NaN else mantissa ip [] 0
         | c # t \<Rightarrow>
             if c = CHR ''.'' then
               (let fp = takeWhile isDecimalDigit t; r2 = dropWhile isDecimalDigit t in
                if ip = [] \<and> fp = [] then NaN
                else mantissa (ip @ fp) r2 (int (length fp)))
             else if ip = [] then NaN
             else mantissa ip r1 0))"

fun negate :: "js_number \<Rightarrow> js_number" where
  "negate NaN = NaN"
| "negate Infinity = NegInfinity"
| "negate NegInfinity = Infinity"
| "negate (Num q) = Num (- q)"

definition strDecimalLiteral :: "string \<Rightarrow> js_number" where
  "strDecimalLiteral s =
     (case s of
        [] \<Rightarrow> NaN
      | c # t \<Rightarrow>
          if c = CHR ''+'' then strUnsignedDecimalLiteral t
          else if c = CHR ''-'' then negate (strUnsignedDecimalLiteral t)
          else strUnsignedDecimalLiteral s)"

definition nonDecimal :: "nat \<Rightarrow> string \<Rightarrow> js_number" where
  "nonDecimal radix ds = (case digits radix ds of None \<Rightarrow> NaN | Some m \<Rightarrow> Num (of_nat m))"

definition strNumericLiteral :: "string \<Rightarrow> js_number" where
  "strNumericLiteral s =
     (case s of
        c # p # ds \<Rightarrow>
          if c = CHR ''0'' \<and> (p = CHR ''x'' \<or> p = CHR ''X'') then nonDecimal 16 ds
          else if c = CHR ''0'' \<and> (p = CHR ''o'' \<or> p = CHR ''O'') then nonDecimal 8 ds
          else if c = CHR ''0'' \<and> (p = CHR ''b'' \<or> p = CHR ''B'') then nonDecimal 2 ds
          else strDecimalLiteral s
      | _ \<Rightarrow> strDecimalLiteral s)"

text \<open>White space and line terminators among the code units below 256.\<close>

definition isWhiteSpace :: "char \<Rightarrow> bool" where
  "isWhiteSpace c =
     (c \<in> set [CHR 0x09, CHR 0x0A, CHR 0x0B, CHR 0x0C, CHR 0x0D, CHR 0x20, CHR 0xA0])"

definition trim :: "string \<Rightarrow> string" where
  "trim s = rev (dropWhile isWhiteSpace (rev (dropWhile isWhiteSpace s)))"

text \<open>\<open>StringToNumber\<close>: a string of white space only converts to \<open>+0\<close>.\<close>

definition stringToNumber :: "string \<Rightarrow> js_number" where
  "stringToNumber s = (let t = trim s in if t = [] then Num 0 else strNumericLiteral t)"

text \<open>
  \<open>Array.prototype.join\<close> with the default separator, as \<open>ToPrimitive\<close> uses it on an
  array; a \<open>null\<close> element contributes the empty string.
\<close>

fun joinComma :: "string list \<Rightarrow> string" where
  "joinComma [] = []"
| "joinComma [x] = x"
| "joinComma (x # y # ys) = x @ '','' @ joinComma (y # ys)"

definition elementToString :: "string option \<Rightarrow> string" where
  "elementToString e = (case e of None \<Rightarrow> [] | Some s \<Rightarrow> s)"

fun Number :: "query_value option \<Rightarrow> js_number" where
  "Number None = NaN"
| "Number (Some QNull) = Num 0"
| "Number (Some (QString s)) = stringToNumber s"
| "Number (Some (QArray xs)) = stringToNumber (joinComma (map elementToString xs))"

text \<open>\<open>ToBoolean\<close>, as the \<open>if\<close> applies it: only a non-empty string and an array pass.\<close>

fun truthy :: "query_value option \<Rightarrow> bool" where
  "truthy None = False"
| "truthy (Some QNull) = False"
| "truthy (Some (QString s)) = (s \<noteq> [])"
| "truthy (Some (QArray xs)) = True"

subsection \<open>The function\<close>

text \<open>
  The argument object of one \<open>filesStore.get\<close> call; \<open>page = None\<close> is a call without
  the \<open>page\<close> property. \<open>checkRouteQuery\<close> returns the calls it makes, in order.
\<close>

record get_options =
  admin :: bool
  page :: "js_number option"

definition checkRouteQuery :: "query_value option \<Rightarrow> get_options list" where
  "checkRouteQuery routeQueryPage =
     (if truthy routeQueryPage then
        (let pageNum = Number routeQueryPage in
         if \<not> isNaN pageNum then [\<lparr>admin = True, page = Some pageNum\<rparr>]
         else [\<lparr>admin = True, page = None\<rparr>] @ [\<lparr>admin = True, page = None\<rparr>])
      else [\<lparr>admin = True, page = None\<rparr>])"

section \<open>The album links route: \<open>GetAlbumLinks.run\<close>\<close>

text \<open>
  The rows of the \<open>albums\<close> and \<open>links\<close> tables, with the columns the route reads, and
  the projection its \<open>select\<close> asks for.
\<close>

type_synonym datetime = int

record albums_row =
  albums_id :: int
  albums_uuid :: string
  albums_userId :: int

record links_row =
  links_uuid :: string
  links_userId :: int
  links_albumId :: int
  links_identifier :: string
  links_views :: int
  links_enabled :: bool
  links_enableDownload :: bool
  links_expiresAt :: "datetime option"
  links_createdAt :: datetime
  links_editedAt :: "datetime option"

record selected_link =
  uuid :: string
  identifier' :: string
  views :: int
  enabled :: bool
  enableDownload :: bool
  expiresAt :: "datetime option"
  createdAt :: datetime
  editedAt :: "datetime option"

record database =
  albums :: "albums_row list"
  links :: "links_row list"

text \<open>The request: the \<open>uuid\<close> path parameter (\<open>None\<close> is \<open>undefined\<close>) and the user's id.\<close>

record request =
  params_uuid :: "string option"
  user_id :: int

text \<open>The reply: the status code (200 unless \<open>res.code\<close> sets it) and the body sent.\<close>

record reply =
  statusCode :: nat
  message :: string
  body_links :: "selected_link list option"

definition select_link :: "links_row \<Rightarrow> selected_link" where
  "select_link l =
     \<lparr>uuid = links_uuid l, identifier' = links_identifier l, views = links_views l,
      enabled = links_enabled l, enableDownload = links_enableDownload l,
      expiresAt = links_expiresAt l, createdAt = links_createdAt l,
      editedAt = links_editedAt l\<rparr>"

text \<open>\<open>prisma.albums.findFirst\<close> with \<open>where: {uuid, userId}\<close> and \<open>select: {id}\<close>.\<close>

definition albums_findFirst :: "database \<Rightarrow> string \<Rightarrow> int \<Rightarrow> int option" where
  "albums_findFirst db u uid =
     map_option albums_id (find (\<lambda>a. albums_uuid a = u \<and> albums_userId a = uid) (albums db))"

text \<open>\<open>prisma.links.findMany\<close> with \<open>where: {albumId, userId}\<close> and the \<open>select\<close>.\<close>

definition links_findMany :: "database \<Rightarrow> int \<Rightarrow> int \<Rightarrow> selected_link list" where
  "links_findMany db aid uid =
     map select_link (filter (\<lambda>l. links_albumId l = aid \<and> links_userId l = uid) (links db))"

text \<open>\<open>!uuid\<close>: the parameter is \<open>undefined\<close> or the empty string.\<close>

definition uuid_missing :: "string option \<Rightarrow> bool" where
  "uuid_missing p = (case p of None \<Rightarrow> True | Some u \<Rightarrow> u = [])"

definition run :: "request \<Rightarrow> database \<Rightarrow> reply" where
  "run req db =
     (case params_uuid req of
        None \<Rightarrow> \<lparr>statusCode = 400, message = ''Invalid uuid supplied'', body_links = None\<rparr>
      | Some u \<Rightarrow>
          if u = [] then
            \<lparr>statusCode = 400, message = ''Invalid uuid supplied'', body_links = None\<rparr>
          else
            (case albums_findFirst db u (user_id req) of
               None \<Rightarrow>
                 \<lparr>statusCode = 400,
                  message = ''Album doesn't exist or doesn't belong to the user'',
                  body_links = None\<rparr>
             | Some album_id \<Rightarrow>
                 \<lparr>statusCode = 200, message = ''Successfully retrieved links'',
                  body_links = Some (links_findMany db album_id (user_id req))\<rparr>))"

section \<open>The upload component: the uploader's callbacks\<close>

text \<open>
  \<open>processFile\<close> hands the file to \<open>chibiUploader\<close> with callbacks that report to the
  uploads store:
  \<^verbatim>\<open>
  onStart: (uuid: string, totalChunks: number) => {
      uploadsStore.addFile({ uuid, name: file.name, type: file.type, processing: true,
          status: 'uploading', bytesSent: 0, bytesTotal: file.size, progress: 0, url: '' });
  },
  onProgress: (uuid: string, progress: any) => {
      uploadsStore.updateProgess(uuid, progress, 0);
  },
  \<close>
  The store and the uploader library are not part of the sources; a callback is modelled
  by the store call it makes, with the arguments it passes. The third argument of
  \<open>updateProgess\<close> is read as the bytes sent, the \<open>bytesSent\<close> of the entry that
  \<open>onStart\<close> registers.
\<close>

record browser_file =
  file_name :: string
  file_type :: string
  file_size :: nat

record upload_entry =
  upload_uuid :: string
  upload_name :: string
  upload_type :: string
  processing :: bool
  upload_status :: string
  bytesSent :: nat
  bytesTotal :: nat
  progress :: rat
  url :: string

datatype store_call =
    AddFile upload_entry
  | UpdateProgess string rat nat

definition onStart :: "browser_file \<Rightarrow> string \<Rightarrow> nat \<Rightarrow> store_call" where
  "onStart file uuid' totalChunks' =
     AddFile \<lparr>upload_uuid = uuid', upload_name = file_name file, upload_type = file_type file,
              processing = True, upload_status = ''uploading'', bytesSent = 0,
              bytesTotal = file_size file, progress = 0, url = []\<rparr>"

definition onProgress :: "string \<Rightarrow> rat \<Rightarrow> store_call" where
  "onProgress uuid' progress' = UpdateProgess uuid' progress' 0"

text \<open>What one store call tells the store about an upload's percentage and bytes sent.\<close>

fun reported_progress :: "store_call \<Rightarrow> rat" where
  "reported_progress (AddFile e) = progress e"
| "reported_progress (UpdateProgess u p b) = p"

fun reported_bytes :: "store_call \<Rightarrow> nat" where
  "reported_bytes (AddFile e) = bytesSent e"
| "reported_bytes (UpdateProgess u p b) = b"

section \<open>Chunk Receiver, Upload Session Tracker and Reassembler\<close>

text \<open>
  The server side of the chunked upload is not among the sources (the upload component
  above is its caller, and the server's start-up only admits the chunk headers). The
  definitions of this section follow the specification of these three components.
\<close>

type_synonym bytes = "8 word list"

text \<open>
  Modelled from the spec: the session statuses of the data model and the error taxonomy
  of the error handling design, absent from the sources.
\<close>

datatype session_status =
  Receiving | Reassembling | Deduplicating | Finalizing | Completed | Failed

datatype error = ValidationError | IncompleteUploadError | StorageError | DuplicateRaceError

text \<open>
  Modelled from the spec: the \<open>UploadSession\<close> of the data model, absent from the sources.
  \<open>tempPath\<close> is the scratch area, holding the chunk files keyed by index.
  \<open>totalSize\<close> is not an argument of \<open>receive\<close> and is left out.
\<close>

record upload_session =
  uploadId :: string
  totalChunks :: nat
  receivedChunks :: "nat set"
  chunkSize :: nat
  status :: session_status
  tempPath :: "nat \<rightharpoonup> bytes"

text \<open>
  Modelled from the spec: the Tracker's registry, absent from the sources, mapping an
  upload identifier to its session.
\<close>

type_synonym registry = "string \<rightharpoonup> upload_session"

text \<open>
  Modelled from the spec: the configuration, absent from the sources, with the one
  option \<open>receive\<close> reads (the chunk size limit).
\<close>

record config =
  chunkSizeLimit :: nat

text \<open>
  Modelled from the spec: the acknowledgment \<open>receive\<close> returns for one chunk, absent
  from the sources; \<open>ack_complete\<close> says that this chunk completed the upload.
\<close>

record ack =
  ack_uploadId :: string
  ack_index :: nat
  ack_complete :: bool

text \<open>
  Modelled from the spec: the compare-and-set on the session status of the design notes,
  absent from the sources: it succeeds only from the expected status.
\<close>

definition compareAndSetStatus ::
  "session_status \<Rightarrow> session_status \<Rightarrow> upload_session \<Rightarrow> bool \<times> upload_session" where
  "compareAndSetStatus expected new s =
     (if status s = expected then (True, s\<lparr>status := new\<rparr>) else (False, s))"

text \<open>
  Modelled from the spec: the Tracker's \<open>getSession(uploadId)\<close> and
  \<open>recordChunk(uploadId, index)\<close>, absent from the sources. \<open>getSession\<close> returns the
  session state, \<open>None\<close> standing for \<open>NotFound\<close>. \<open>recordChunk\<close> adds the index to
  \<open>receivedChunks\<close>, checks completion (\<open>|receivedChunks| = totalChunks\<close>) and then
  attempts the transition \<open>receiving \<rightarrow> reassembling\<close>; it returns the session state
  after the update.
\<close>

definition getSession :: "registry \<Rightarrow> string \<Rightarrow> upload_session option" where
  "getSession reg uid = reg uid"

definition recordChunk :: "registry \<Rightarrow> string \<Rightarrow> nat \<Rightarrow> upload_session option \<times> registry" where
  "recordChunk reg uid idx =
     (case getSession reg uid of
        None \<Rightarrow> (None, reg)
      | Some s \<Rightarrow>
          (let s1 = s\<lparr>receivedChunks := insert idx (receivedChunks s)\<rparr>;
               s2 = (if card (receivedChunks s1) = totalChunks s1
                     then snd (compareAndSetStatus Receiving Reassembling s1)
                     else s1)
           in (Some s2, reg(uid \<mapsto> s2))))"

text \<open>
  Modelled from the spec: the session created on the first chunk of a new \<open>uploadId\<close>,
  with \<open>totalChunks\<close> fixed from that chunk.
\<close>

definition newSession :: "string \<Rightarrow> nat \<Rightarrow> nat \<Rightarrow> upload_session" where
  "newSession uid nChunks declaredChunkSize =
     \<lparr>uploadId = uid, totalChunks = nChunks, receivedChunks = {},
      chunkSize = declaredChunkSize, status = Receiving, tempPath = Map.empty\<rparr>"

text \<open>
  Modelled from the spec: the Chunk Receiver's
  \<open>receive(uploadId, index, totalChunks, declaredChunkSize, payload)\<close>, absent from the
  sources. It rejects on the four listed conditions, in the order the spec lists them,
  and otherwise persists the chunk to the scratch area under its index (overwriting) and
  then updates the Tracker. The spec lists no rejection by session status, so a chunk for
  a session that has left \<open>receiving\<close> is stored like any other. The acknowledgment says
  whether this chunk took the session from \<open>receiving\<close> to \<open>reassembling\<close>. Failures of
  the storage itself are not modelled.
\<close>

definition receive ::
  "config \<Rightarrow> registry \<Rightarrow> string \<Rightarrow> nat \<Rightarrow> nat \<Rightarrow> nat \<Rightarrow> bytes \<Rightarrow> (error + ack) \<times> registry" where
  "receive cfg reg uid idx nChunks declaredChunkSize payload =
     (if \<not> idx < nChunks then (Inl ValidationError, reg)
      else if chunkSizeLimit cfg < length payload then (Inl ValidationError, reg)
      else if (case getSession reg uid of None \<Rightarrow> False | Some s \<Rightarrow> totalChunks s \<noteq> nChunks)
        then (Inl ValidationError, reg)
      else if payload = [] \<and> idx + 1 \<noteq> nChunks then (Inl ValidationError, reg)
      else
        (let s0 = (case getSession reg uid of
                     None \<Rightarrow> newSession uid nChunks declaredChunkSize
                   | Some s \<Rightarrow> s);
             s1 = s0\<lparr>tempPath := (tempPath s0)(idx \<mapsto> payload)\<rparr>;
             (state, reg2) = recordChunk (reg(uid \<mapsto> s1)) uid idx;
             won = (status s1 = Receiving \<and>
                    (case state of None \<Rightarrow> False | Some s2 \<Rightarrow> status s2 = Reassembling))
         in (Inr \<lparr>ack_uploadId = uid, ack_index = idx, ack_complete = won\<rparr>, reg2)))"

text \<open>
  Modelled from the spec: the Reassembler, absent from the sources. It reads the chunk
  files strictly in index order \<open>0..totalChunks-1\<close>, appending each to the output as it is
  read, and fails with \<open>IncompleteUploadError\<close> when an expected chunk file is missing
  (the session is then marked \<open>failed\<close>). On success the chunk files are deleted and the
  output is returned.
\<close>

fun appendChunks :: "(nat \<rightharpoonup> bytes) \<Rightarrow> nat list \<Rightarrow> bytes \<Rightarrow> bytes option" where
  "appendChunks scratch [] out = Some out"
| "appendChunks scratch (k # ks) out =
     (case scratch k of
        None \<Rightarrow> None
      | Some chunk \<Rightarrow> appendChunks scratch ks (out @ chunk))"

definition reassemble :: "upload_session \<Rightarrow> (error + bytes) \<times> upload_session" where
  "reassemble s =
     (case appendChunks (tempPath s) [0..<totalChunks s] [] of
        None \<Rightarrow> (Inl IncompleteUploadError, s\<lparr>status := Failed\<rparr>)
      | Some out \<Rightarrow> (Inr out, s\<lparr>tempPath := Map.empty\<rparr>))"

text \<open>
  Modelled from the spec: the client of the delivery scenarios, absent from the sources.
  The chunks of \<open>chunks\<close> arrive in the order the index list gives (an index may come
  more than once), each through \<open>receive\<close> with \<open>totalChunks = length chunks\<close>; the
  results are collected in arrival order. An index past the last chunk is rejected by the
  first check of \<open>receive\<close>, whatever payload comes with it.
\<close>

fun deliver ::
  "config \<Rightarrow> string \<Rightarrow> nat \<Rightarrow> bytes list \<Rightarrow> nat list \<Rightarrow> registry \<Rightarrow> (error + ack) list \<times> registry" where
  "deliver cfg uid declaredChunkSize chunks [] reg = ([], reg)"
| "deliver cfg uid declaredChunkSize chunks (i # order) reg =
     (let (r, reg1) = receive cfg reg uid i (length chunks) declaredChunkSize (chunks ! i);
          (rs, reg2) = deliver cfg uid declaredChunkSize chunks order reg1
      in (r # rs, reg2))"

section \<open>Invariants and example data used in the proofs\<close>

text \<open>
  A session \<open>tracks\<close> the chunk list of an upload when it expects that many chunks, has
  received only indices in range, holds for each received index the chunk of that index,
  and has left \<open>receiving\<close> exactly when every index has been received.
\<close>

definition tracks :: "bytes list \<Rightarrow> upload_session \<Rightarrow> bool" where
  "tracks chunks s \<longleftrightarrow>
     totalChunks s = length chunks \<and>
     receivedChunks s \<subseteq> {..<length chunks} \<and>
     (\<forall>k \<in> receivedChunks s. tempPath s k = Some (chunks ! k)) \<and>
     status s = (if receivedChunks s = {..<length chunks} then Reassembling else Receiving)"

definition received0 :: "registry \<Rightarrow> string \<Rightarrow> nat set" where
  "received0 reg uid = (case reg uid of None \<Rightarrow> {} | Some s \<Rightarrow> receivedChunks s)"

definition reg_tracks :: "bytes list \<Rightarrow> registry \<Rightarrow> string \<Rightarrow> bool" where
  "reg_tracks chunks reg uid =
     (case reg uid of None \<Rightarrow> chunks \<noteq> [] | Some s \<Rightarrow> tracks chunks s)"

text \<open>
  A session that has received chunk 0 of 2, and a small database: two albums of two users,
  and links of every combination of album and user, with differing columns.
\<close>

definition half_done :: upload_session where
  "half_done =
     \<lparr>uploadId = ''u1'', totalChunks = 2, receivedChunks = {0}, chunkSize = 2,
      status = Receiving, tempPath = [0 \<mapsto> [1, 2]]\<rparr>"

definition db1 :: database where
  "db1 =
     \<lparr>albums = [\<lparr>albums_id = 1, albums_uuid = ''a1'', albums_userId = 7\<rparr>,
                \<lparr>albums_id = 2, albums_uuid = ''b2'', albums_userId = 8\<rparr>],
      links = [\<lparr>links_uuid = ''l1'', links_userId = 7, links_albumId = 1,
                links_identifier = ''abc'', links_views = 3, links_enabled = True,
                links_enableDownload = False, links_expiresAt = None, links_createdAt = 10,
                links_editedAt = None\<rparr>,
               \<lparr>links_uuid = ''l2'', links_userId = 8, links_albumId = 2,
                links_identifier = ''def'', links_views = 0, links_enabled = True,
                links_enableDownload = True, links_expiresAt = Some 99, links_createdAt = 11,
                links_editedAt = None\<rparr>,
               \<lparr>links_uuid = ''l3'', links_userId = 8, links_albumId = 1,
                links_identifier = ''ghi'', links_views = 5, links_enabled = True,
                links_enableDownload = True, links_expiresAt = None, links_createdAt = 12,
                links_editedAt = None\<rparr>,
               \<lparr>links_uuid = ''l4'', links_userId = 7, links_albumId = 2,
                links_identifier = ''jkl'', links_views = 6, links_enabled = True,
                links_enableDownload = False, links_expiresAt = None, links_createdAt = 13,
                links_editedAt = None\<rparr>,
               \<lparr>links_uuid = ''l5'', links_userId = 7, links_albumId = 1,
                links_identifier = ''mno'', links_views = 8, links_enabled = False,
                links_enableDownload = True, links_expiresAt = Some 77, links_createdAt = 14,
                links_editedAt = Some 15\<rparr>]\<rparr>"

section \<open>Properties of \<open>checkRouteQuery\<close>\<close>

lemmas number_simps =
  stringToNumber_def trim_def isWhiteSpace_def strNumericLiteral_def strDecimalLiteral_def
  strUnsignedDecimalLiteral_def isDecimalDigit_def digitValue_def mantissa_def
  exponentPart_def scale10_def digits_def nonDecimal_def

lemma absent_not_truthy: "q = None \<longrightarrow> \<not> truthy q"
  by simp

lemma present_NaN_truthy: "q \<noteq> None \<and> isNaN (Number q) \<longrightarrow> truthy q"
proof (cases q)
  case None
  then show ?thesis by simp
next
  case (Some v)
  show ?thesis
  proof (cases v)
    case QNull
    with Some show ?thesis by (simp add: isNaN_def)
  next
    case (QString s)
    with Some show ?thesis
      by (cases "s = []") (simp_all add: isNaN_def stringToNumber_def trim_def)
  next
    case (QArray xs)
    with Some show ?thesis by simp
  qed
qed

text \<open>
  Claim C9, as the code has it. The outer test of \<open>checkRouteQuery\<close> is truthiness, not
  presence. When \<open>route.query.page\<close> is falsy (absent, \<open>null\<close> or the empty string),
  \<open>filesStore.get({admin: true})\<close> is called exactly once. When it is truthy and
  \<open>Number\<close> of it is not \<open>NaN\<close>, \<open>filesStore.get({admin: true, page: pageNum})\<close> is called
  exactly once. When it is truthy and \<open>Number\<close> of it is \<open>NaN\<close>,
  \<open>filesStore.get({admin: true})\<close> is called twice. An absent value is falsy, and a
  present value that converts to \<open>NaN\<close> is truthy, so the claim's first and third cases
  hold as stated.
\<close>

theorem checkRouteQuery_calls:
  "(\<not> truthy q \<longrightarrow> checkRouteQuery q = [\<lparr>admin = True, page = None\<rparr>]) \<and>
   (truthy q \<and> \<not> isNaN (Number q) \<longrightarrow>
      checkRouteQuery q = [\<lparr>admin = True, page = Some (Number q)\<rparr>]) \<and>
   (truthy q \<and> isNaN (Number q) \<longrightarrow>
      checkRouteQuery q = [\<lparr>admin = True, page = None\<rparr>, \<lparr>admin = True, page = None\<rparr>]) \<and>
   (q = None \<longrightarrow> \<not> truthy q) \<and>
   (q \<noteq> None \<and> isNaN (Number q) \<longrightarrow> truthy q)"
  using absent_not_truthy [of q] present_NaN_truthy [of q]
  by (simp add: checkRouteQuery_def Let_def)

text \<open>
  Claim C9, witness: the three cases at an absent page, at \<open>page=3\<close> and at \<open>page=x\<close>.
\<close>

theorem checkRouteQuery_calls_witness:
  "\<not> truthy None \<and> checkRouteQuery None = [\<lparr>admin = True, page = None\<rparr>] \<and>
   truthy (Some (QString ''3'')) \<and> \<not> isNaN (Number (Some (QString ''3''))) \<and>
   checkRouteQuery (Some (QString ''3'')) = [\<lparr>admin = True, page = Some (Num 3)\<rparr>] \<and>
   truthy (Some (QString ''x'')) \<and> isNaN (Number (Some (QString ''x''))) \<and>
   checkRouteQuery (Some (QString ''x'')) =
     [\<lparr>admin = True, page = None\<rparr>, \<lparr>admin = True, page = None\<rparr>]"
proof -
  have three: "Number (Some (QString ''3'')) = Num 3"
    by (simp add: number_simps)
  have x: "Number (Some (QString ''x'')) = NaN"
    by (simp add: number_simps)
  show ?thesis
    using checkRouteQuery_calls [of None] checkRouteQuery_calls [of "Some (QString ''3'')"]
      checkRouteQuery_calls [of "Some (QString ''x'')"] three x
    by (simp add: isNaN_def)
qed

text \<open>
  Claim C9, counterexample to the claim as stated. With the query \<open>?page=\<close> the value is
  present (the empty string) and \<open>Number('')\<close> is \<open>0\<close>, not \<open>NaN\<close>; the claim's second case
  promises one call \<open>get({admin: true, page: 0})\<close>, but the empty string is falsy and the
  function makes the one call \<open>get({admin: true})\<close>.
\<close>

theorem checkRouteQuery_empty_page_counterexample:
  "Some (QString '''') \<noteq> None \<and> \<not> isNaN (Number (Some (QString ''''))) \<and>
   checkRouteQuery (Some (QString '''')) = [\<lparr>admin = True, page = None\<rparr>] \<and>
   checkRouteQuery (Some (QString '''')) \<noteq>
     [\<lparr>admin = True, page = Some (Number (Some (QString '''')))\<rparr>]"
  by (simp add: checkRouteQuery_def isNaN_def stringToNumber_def trim_def)

section \<open>Properties of \<open>GetAlbumLinks.run\<close>\<close>

lemma albums_findFirst_None:
  "albums_findFirst db u uid = None \<longleftrightarrow>
     \<not> (\<exists>a \<in> set (albums db). albums_uuid a = u \<and> albums_userId a = uid)"
  by (auto simp: albums_findFirst_def find_None_iff)

text \<open>
  Claim C10. The route replies with status 400 and no links exactly when the \<open>uuid\<close>
  parameter is missing (the code's \<open>!uuid\<close>: undefined or empty) or no album with that
  uuid belongs to the requesting user. Otherwise, with \<open>a\<close> the album \<open>findFirst\<close> returns,
  it replies (status 200) with exactly the links whose \<open>albumId\<close> is \<open>a\<close>'s id and whose
  \<open>userId\<close> is the requester's id, in table order, each projected to \<open>uuid\<close>,
  \<open>identifier\<close>, \<open>views\<close>, \<open>enabled\<close>, \<open>enableDownload\<close>, \<open>expiresAt\<close>, \<open>createdAt\<close>,
  \<open>editedAt\<close>: every field of a returned link is the column of that name of its row, and
  the row's \<open>userId\<close> and \<open>albumId\<close> are not part of it.
\<close>

theorem run_replies:
  "((statusCode (run req db) = 400 \<and> body_links (run req db) = None) \<longleftrightarrow>
      (uuid_missing (params_uuid req) \<or>
       \<not> (\<exists>a \<in> set (albums db).
             Some (albums_uuid a) = params_uuid req \<and> albums_userId a = user_id req))) \<and>
   (\<forall>u a. params_uuid req = Some u \<and> u \<noteq> [] \<and>
          find (\<lambda>a. albums_uuid a = u \<and> albums_userId a = user_id req) (albums db) = Some a \<longrightarrow>
      run req db =
        \<lparr>statusCode = 200, message = ''Successfully retrieved links'',
         body_links = Some
           (map (\<lambda>l. \<lparr>uuid = links_uuid l, identifier' = links_identifier l,
                                   views = links_views l, enabled = links_enabled l,
                                   enableDownload = links_enableDownload l,
                                   expiresAt = links_expiresAt l,
                                   createdAt = links_createdAt l,
                                   editedAt = links_editedAt l\<rparr>)
              (filter (\<lambda>l. links_albumId l = albums_id a \<and> links_userId l = user_id req)
                 (links db)))\<rparr>)"
proof (intro conjI allI impI)
  show "(statusCode (run req db) = 400 \<and> body_links (run req db) = None) \<longleftrightarrow>
      (uuid_missing (params_uuid req) \<or>
       \<not> (\<exists>a \<in> set (albums db).
             Some (albums_uuid a) = params_uuid req \<and> albums_userId a = user_id req))"
  proof (cases "params_uuid req")
    case None
    then show ?thesis by (simp add: run_def uuid_missing_def)
  next
    case (Some u)
    show ?thesis
    proof (cases "albums_findFirst db u (user_id req)")
      case None
      then show ?thesis
        using Some albums_findFirst_None [of db u "user_id req"]
        by (auto simp: run_def uuid_missing_def)
    next
      case (Some aid)
      then show ?thesis
        using \<open>params_uuid req = Some u\<close> albums_findFirst_None [of db u "user_id req"]
        by (auto simp: run_def uuid_missing_def)
    qed
  qed
next
  fix u a
  assume "params_uuid req = Some u \<and> u \<noteq> [] \<and>
          find (\<lambda>a. albums_uuid a = u \<and> albums_userId a = user_id req) (albums db) = Some a"
  then show "run req db =
        \<lparr>statusCode = 200, message = ''Successfully retrieved links'',
         body_links = Some
           (map (\<lambda>l. \<lparr>uuid = links_uuid l, identifier' = links_identifier l,
                                   views = links_views l, enabled = links_enabled l,
                                   enableDownload = links_enableDownload l,
                                   expiresAt = links_expiresAt l,
                                   createdAt = links_createdAt l,
                                   editedAt = links_editedAt l\<rparr>)
              (filter (\<lambda>l. links_albumId l = albums_id a \<and> links_userId l = user_id req)
                 (links db)))\<rparr>"
    by (simp add: run_def albums_findFirst_def links_findMany_def select_link_def)
qed

text \<open>
  Claim C10, witness: user 7 asks for the links of their album \<open>a1\<close> and gets the two
  links of that album that are theirs, in table order, each with its own columns; the
  link of user 8 on that album and their own link on another album are left out. Then
  they ask for album \<open>b2\<close> of another user, and without a uuid.
\<close>

theorem run_replies_witness:
  "run \<lparr>params_uuid = Some ''a1'', user_id = 7\<rparr> db1 =
     \<lparr>statusCode = 200, message = ''Successfully retrieved links'',
      body_links = Some [\<lparr>uuid = ''l1'', identifier' = ''abc'', views = 3, enabled = True,
                          enableDownload = False, expiresAt = None, createdAt = 10,
                          editedAt = None\<rparr>,
                         \<lparr>uuid = ''l5'', identifier' = ''mno'', views = 8, enabled = False,
                          enableDownload = True, expiresAt = Some 77, createdAt = 14,
                          editedAt = Some 15\<rparr>]\<rparr> \<and>
   statusCode (run \<lparr>params_uuid = Some ''b2'', user_id = 7\<rparr> db1) = 400 \<and>
   body_links (run \<lparr>params_uuid = Some ''b2'', user_id = 7\<rparr> db1) = None \<and>
   statusCode (run \<lparr>params_uuid = None, user_id = 7\<rparr> db1) = 400"
  using run_replies [of "\<lparr>params_uuid = Some ''a1'', user_id = 7\<rparr>" db1]
    run_replies [of "\<lparr>params_uuid = Some ''b2'', user_id = 7\<rparr>" db1]
    run_replies [of "\<lparr>params_uuid = None, user_id = 7\<rparr>" db1]
  by (simp add: db1_def uuid_missing_def)

section \<open>Properties of the upload component's callbacks\<close>

text \<open>
  Claim C7, as the code has it. \<open>onStart\<close> registers the upload with \<open>bytesSent = 0\<close>,
  \<open>bytesTotal = file.size\<close> and \<open>progress = 0\<close>. Every progress update forwards the
  percentage it was given for that uuid, and the byte count it passes is the literal \<open>0\<close>:
  the uploader's \<open>onProgress\<close> callback supplies a percentage only.
\<close>

theorem onProgress_reports:
  "reported_progress (onProgress u p) = p \<and> reported_bytes (onProgress u p) = 0 \<and>
   onProgress u p = UpdateProgess u p 0 \<and>
   onStart f u n =
     AddFile \<lparr>upload_uuid = u, upload_name = file_name f, upload_type = file_type f,
              processing = True, upload_status = ''uploading'', bytesSent = 0,
              bytesTotal = file_size f, progress = 0, url = []\<rparr>"
  by (simp add: onProgress_def onStart_def)

text \<open>
  Claim C7, counterexample to the claim as stated. For a file of 10240 bytes the update
  at 100 percent, when every byte has been received, carries the byte count 0, not 10240;
  the updates at 50 and at 100 percent carry the same byte count.
\<close>

theorem onProgress_bytes_counterexample:
  "reported_bytes
     (onStart \<lparr>file_name = ''a.bin'', file_type = ''image/png'', file_size = 10240\<rparr> ''u1'' 3) = 0 \<and>
   reported_progress (onProgress ''u1'' 100) = 100 \<and>
   reported_bytes (onProgress ''u1'' 100) \<noteq> 10240 \<and>
   reported_bytes (onProgress ''u1'' 50) = reported_bytes (onProgress ''u1'' 100)"
  by (simp add: onProgress_def onStart_def)

section \<open>Properties of the Chunk Receiver and the Reassembler\<close>

lemma card_full_iff:
  assumes "R \<subseteq> {..<n}"
  shows "card R = n \<longleftrightarrow> R = {..<(n::nat)}"
proof
  assume "card R = n"
  then have "card R = card {..<n}" by simp
  with assms show "R = {..<n}" by (simp add: card_subset_eq)
next
  assume "R = {..<n}"
  then show "card R = n" by simp
qed

text \<open>What an accepted chunk does to the registry, for a new and for a known upload.\<close>

lemma receive_accepted:
  assumes "idx < n" and "length payload \<le> chunkSizeLimit cfg"
    and "payload \<noteq> [] \<or> idx + 1 = n"
    and "case reg uid of None \<Rightarrow> True | Some s \<Rightarrow> totalChunks s = n"
  shows "receive cfg reg uid idx n d payload =
     (let s0 = (case reg uid of None \<Rightarrow> newSession uid n d | Some s \<Rightarrow> s);
          R = insert idx (receivedChunks s0);
          won = (card R = n \<and> status s0 = Receiving)
      in (Inr \<lparr>ack_uploadId = uid, ack_index = idx, ack_complete = won\<rparr>,
          reg(uid \<mapsto> s0\<lparr>tempPath := (tempPath s0)(idx \<mapsto> payload), receivedChunks := R,
                          status := (if won then Reassembling else status s0)\<rparr>)))"
  using assms
  by (cases "reg uid")
     (auto simp: receive_def recordChunk_def getSession_def compareAndSetStatus_def Let_def
           newSession_def)

lemma receive_tracks:
  assumes tr: "reg_tracks chunks reg uid" and i: "i < length chunks"
    and sz: "length (chunks ! i) \<le> chunkSizeLimit cfg"
    and ne: "chunks ! i \<noteq> [] \<or> i + 1 = length chunks"
  shows "\<exists>a s'. receive cfg reg uid i (length chunks) d (chunks ! i) = (Inr a, reg(uid \<mapsto> s')) \<and>
           tracks chunks s' \<and> receivedChunks s' = insert i (received0 reg uid)"
proof -
  let ?s0 = "case reg uid of None \<Rightarrow> newSession uid (length chunks) d | Some s \<Rightarrow> s"
  have s0: "tracks chunks ?s0"
    using tr i by (cases "reg uid") (auto simp: reg_tracks_def tracks_def newSession_def)
  have tot: "case reg uid of None \<Rightarrow> True | Some s \<Rightarrow> totalChunks s = length chunks"
    using tr by (cases "reg uid") (auto simp: reg_tracks_def tracks_def)
  have r0: "receivedChunks ?s0 = received0 reg uid"
    by (cases "reg uid") (auto simp: received0_def newSession_def)
  let ?R = "insert i (receivedChunks ?s0)"
  let ?won = "card ?R = length chunks \<and> status ?s0 = Receiving"
  let ?s' = "?s0\<lparr>tempPath := (tempPath ?s0)(i \<mapsto> chunks ! i), receivedChunks := ?R,
                 status := (if ?won then Reassembling else status ?s0)\<rparr>"
  have sub: "?R \<subseteq> {..<length chunks}"
    using s0 i by (auto simp: tracks_def)
  have full: "card ?R = length chunks \<longleftrightarrow> ?R = {..<length chunks}"
    using sub by (rule card_full_iff)
  have mono: "receivedChunks ?s0 = {..<length chunks} \<Longrightarrow> ?R = {..<length chunks}"
    using i by auto
  have st: "status ?s' = (if ?R = {..<length chunks} then Reassembling else Receiving)"
    using s0 full mono by (auto simp: tracks_def)
  have "tracks chunks ?s'"
    unfolding tracks_def
  proof (intro conjI)
    show "totalChunks ?s' = length chunks"
      using s0 by (simp add: tracks_def)
    show "receivedChunks ?s' \<subseteq> {..<length chunks}"
      using sub by simp
    show "\<forall>k\<in>receivedChunks ?s'. tempPath ?s' k = Some (chunks ! k)"
      using s0 by (auto simp: tracks_def)
    show "status ?s' =
        (if receivedChunks ?s' = {..<length chunks} then Reassembling else Receiving)"
      using st by simp
  qed
  moreover have "receive cfg reg uid i (length chunks) d (chunks ! i) =
      (Inr \<lparr>ack_uploadId = uid, ack_index = i, ack_complete = ?won\<rparr>, reg(uid \<mapsto> ?s'))"
    using receive_accepted [of i "length chunks" "chunks ! i" cfg reg uid d] i sz ne tot
    by (simp add: Let_def)
  moreover have "receivedChunks ?s' = insert i (received0 reg uid)"
    using r0 by simp
  ultimately show ?thesis by blast
qed

text \<open>Delivery keeps the invariant, accepts every chunk and accumulates the indices.\<close>

lemma deliver_tracks:
  assumes sz: "\<forall>i<length chunks. length (chunks ! i) \<le> chunkSizeLimit cfg"
    and ne: "\<forall>i<length chunks. chunks ! i \<noteq> [] \<or> i + 1 = length chunks"
  shows "reg_tracks chunks reg uid \<Longrightarrow> set order \<subseteq> {..<length chunks} \<Longrightarrow>
     \<exists>rs reg'. deliver cfg uid d chunks order reg = (rs, reg') \<and>
        (\<forall>r \<in> set rs. \<exists>a. r = Inr a) \<and> reg_tracks chunks reg' uid \<and>
        received0 reg' uid = received0 reg uid \<union> set order"
proof (induction order arbitrary: reg)
  case Nil
  then show ?case by simp
next
  case (Cons i order)
  from Cons.prems have i: "i < length chunks" by simp
  from receive_tracks [OF Cons.prems(1) i] sz ne i
  obtain a s' where
    rcv: "receive cfg reg uid i (length chunks) d (chunks ! i) = (Inr a, reg(uid \<mapsto> s'))"
    and tr: "tracks chunks s'" and r: "receivedChunks s' = insert i (received0 reg uid)"
    by blast
  let ?reg1 = "reg(uid \<mapsto> s')"
  have tr1: "reg_tracks chunks ?reg1 uid"
    using tr by (simp add: reg_tracks_def)
  have r1: "received0 ?reg1 uid = insert i (received0 reg uid)"
    using r by (simp add: received0_def)
  have sub: "set order \<subseteq> {..<length chunks}"
    using Cons.prems(2) by simp
  from Cons.IH [OF tr1 sub]
  obtain rs reg' where d: "deliver cfg uid d chunks order ?reg1 = (rs, reg')"
    and ok: "\<forall>r \<in> set rs. \<exists>a. r = Inr a" and tr': "reg_tracks chunks reg' uid"
    and r': "received0 reg' uid = received0 ?reg1 uid \<union> set order"
    by blast
  have "deliver cfg uid d chunks (i # order) reg = (Inr a # rs, reg')"
    using rcv d by simp
  moreover have "\<forall>r \<in> set (Inr a # rs). \<exists>a. r = Inr a"
    using ok by simp
  moreover have "received0 reg' uid = received0 reg uid \<union> set (i # order)"
    using r' r1 by auto
  ultimately show ?case using tr' by blast
qed

lemma appendChunks_concat:
  "\<forall>k \<in> set ks. scratch k = Some (chunks ! k) \<Longrightarrow>
   appendChunks scratch ks out = Some (out @ concat (map (\<lambda>k. chunks ! k) ks))"
  by (induction ks arbitrary: out) auto

lemma reassemble_tracks:
  assumes "tracks chunks s" and "receivedChunks s = {..<length chunks}"
  shows "fst (reassemble s) = Inr (concat chunks)"
proof -
  have "\<forall>k \<in> set [0..<totalChunks s]. tempPath s k = Some (chunks ! k)"
    using assms by (auto simp: tracks_def)
  then have "appendChunks (tempPath s) [0..<totalChunks s] [] =
      Some ([] @ concat (map (\<lambda>k. chunks ! k) [0..<totalChunks s]))"
    by (rule appendChunks_concat)
  moreover have "map (\<lambda>k. chunks ! k) [0..<totalChunks s] = chunks"
    using assms by (simp add: tracks_def map_nth)
  ultimately show ?thesis by (simp add: reassemble_def)
qed

lemma reassemble_output:
  "tempPath s' = tempPath s \<Longrightarrow> totalChunks s' = totalChunks s \<Longrightarrow>
   fst (reassemble s') = fst (reassemble s)"
  by (simp add: reassemble_def split: option.splits)

text \<open>
  Claim C1. Take an upload of one or more chunks, each within the chunk size limit and
  each but the last non-empty, for an \<open>uploadId\<close> the Tracker does not know yet. Deliver
  its chunks in any arrival order that covers every index \<open>0..totalChunks-1\<close> (an index may
  even arrive again). Then every chunk is acknowledged, the session ends in
  \<open>reassembling\<close>, and the Reassembler's output is byte for byte the concatenation of the
  chunks in ascending index order, of length the sum of the chunk sizes.
\<close>

theorem reassembled_in_index_order:
  assumes nonempty: "chunks \<noteq> []"
    and limit: "\<forall>c \<in> set chunks. length c \<le> chunkSizeLimit cfg"
    and inner: "\<forall>c \<in> set (butlast chunks). c \<noteq> []"
    and order: "set order = {..<length chunks}"
    and fresh: "getSession reg uid = None"
  shows "\<exists>rs reg' s. deliver cfg uid d chunks order reg = (rs, reg') \<and>
           (\<forall>r \<in> set rs. \<exists>a. r = Inr a) \<and> getSession reg' uid = Some s \<and>
           status s = Reassembling \<and> fst (reassemble s) = Inr (concat chunks) \<and>
           length (concat chunks) = sum_list (map length chunks)"
proof -
  have sz: "\<forall>i<length chunks. length (chunks ! i) \<le> chunkSizeLimit cfg"
    using limit by simp
  have ne: "\<forall>i<length chunks. chunks ! i \<noteq> [] \<or> i + 1 = length chunks"
  proof (intro allI impI)
    fix i
    assume i: "i < length chunks"
    show "chunks ! i \<noteq> [] \<or> i + 1 = length chunks"
    proof (cases "i + 1 = length chunks")
      case True
      then show ?thesis by simp
    next
      case False
      with i have less: "i < length (butlast chunks)" by simp
      then have "butlast chunks ! i \<in> set (butlast chunks)" by simp
      moreover have "butlast chunks ! i = chunks ! i"
        using less by (simp add: nth_butlast)
      ultimately show ?thesis using inner by auto
    qed
  qed
  have start: "reg_tracks chunks reg uid"
    using fresh nonempty by (simp add: reg_tracks_def getSession_def)
  have sub: "set order \<subseteq> {..<length chunks}"
    using order by simp
  from deliver_tracks [OF sz ne start sub]
  obtain rs reg' where d: "deliver cfg uid d chunks order reg = (rs, reg')"
    and ok: "\<forall>r \<in> set rs. \<exists>a. r = Inr a" and tr: "reg_tracks chunks reg' uid"
    and r: "received0 reg' uid = received0 reg uid \<union> set order"
    by blast
  have full: "received0 reg' uid = {..<length chunks}"
    using r order fresh by (simp add: received0_def getSession_def)
  have "{..<length chunks} \<noteq> {}"
    using nonempty by auto
  with full obtain s where s: "reg' uid = Some s"
    by (cases "reg' uid") (auto simp: received0_def)
  with tr full have trs: "tracks chunks s" and rs: "receivedChunks s = {..<length chunks}"
    by (auto simp: reg_tracks_def received0_def)
  have "status s = Reassembling"
    using trs rs by (simp add: tracks_def)
  moreover have "fst (reassemble s) = Inr (concat chunks)"
    using trs rs by (rule reassemble_tracks)
  moreover have "length (concat chunks) = sum_list (map length chunks)"
    by (simp add: length_concat)
  ultimately show ?thesis
    using d ok s by (auto simp: getSession_def)
qed

text \<open>
  Claim C1, witness: the scenario of the claim. Three chunks of 4096, 4096 and 2048 bytes
  arrive in the order 2, 0, 1; the reassembled file is the chunks in the order 0, 1, 2 and
  has 10240 bytes.
\<close>

theorem reassembled_in_index_order_witness:
  "\<exists>rs reg' s.
     deliver \<lparr>chunkSizeLimit = 4096\<rparr> ''u1'' 4096
       [replicate 4096 1, replicate 4096 2, replicate 2048 3] [2, 0, 1] Map.empty = (rs, reg') \<and>
     getSession reg' ''u1'' = Some s \<and> status s = Reassembling \<and>
     fst (reassemble s) = Inr (replicate 4096 1 @ replicate 4096 2 @ replicate 2048 3) \<and>
     length (replicate 4096 (1::8 word) @ replicate 4096 2 @ replicate 2048 3) = 10240"
proof -
  let ?chunks = "[replicate 4096 1, replicate 4096 2, replicate 2048 (3::8 word)]"
  have h1: "?chunks \<noteq> []" by simp
  have h2: "\<forall>c \<in> set ?chunks. length c \<le> chunkSizeLimit \<lparr>chunkSizeLimit = 4096\<rparr>" by simp
  have h3: "\<forall>c \<in> set (butlast ?chunks). c \<noteq> []" by simp
  have h4: "set [2, 0, 1] = {..<length ?chunks}" by auto
  have h5: "getSession Map.empty ''u1'' = None" by (simp add: getSession_def)
  show ?thesis
    using reassembled_in_index_order [OF h1 h2 h3 h4 h5, of 4096] by auto
qed

text \<open>
  Claim C2. In every registry state, let chunk \<open>idx\<close> of upload \<open>uid\<close> be already stored
  (its index is in \<open>receivedChunks\<close>), and let it arrive again, valid as it was. Then
  \<open>receive\<close> acknowledges it; \<open>receivedChunks\<close> and its size are unchanged; the chunk file
  of that index holds the arriving payload; unless the session was complete and still
  \<open>receiving\<close>, the acknowledgment reports no completion and nothing of the session but
  that chunk file changes. When the payload is the one stored, the Reassembler's output
  for the session is the same as before, and the registry as a whole is unchanged.
\<close>

theorem receive_duplicate_idempotent:
  assumes session: "getSession reg uid = Some s"
    and stored: "idx \<in> receivedChunks s"
    and range: "idx < totalChunks s"
    and limit: "length payload \<le> chunkSizeLimit cfg"
    and inner: "payload \<noteq> [] \<or> idx + 1 = totalChunks s"
  shows "\<exists>a s'. receive cfg reg uid idx (totalChunks s) d payload = (Inr a, reg(uid \<mapsto> s')) \<and>
           receivedChunks s' = receivedChunks s \<and>
           card (receivedChunks s') = card (receivedChunks s) \<and>
           tempPath s' = (tempPath s)(idx \<mapsto> payload) \<and>
           (status s \<noteq> Receiving \<or> card (receivedChunks s) \<noteq> totalChunks s \<longrightarrow>
              \<not> ack_complete a \<and> s' = s\<lparr>tempPath := (tempPath s)(idx \<mapsto> payload)\<rparr>) \<and>
           (tempPath s idx = Some payload \<longrightarrow> fst (reassemble s') = fst (reassemble s)) \<and>
           (tempPath s idx = Some payload \<and>
            (status s \<noteq> Receiving \<or> card (receivedChunks s) \<noteq> totalChunks s) \<longrightarrow>
              reg(uid \<mapsto> s') = reg)"
proof -
  let ?won = "card (receivedChunks s) = totalChunks s \<and> status s = Receiving"
  let ?s' = "s\<lparr>tempPath := (tempPath s)(idx \<mapsto> payload),
               status := (if ?won then Reassembling else status s)\<rparr>"
  have reg: "reg uid = Some s"
    using session by (simp add: getSession_def)
  have R: "insert idx (receivedChunks s) = receivedChunks s"
    using stored by auto
  have rcv: "receive cfg reg uid idx (totalChunks s) d payload =
      (Inr \<lparr>ack_uploadId = uid, ack_index = idx, ack_complete = ?won\<rparr>, reg(uid \<mapsto> ?s'))"
    using receive_accepted [of idx "totalChunks s" payload cfg reg uid d] range limit inner reg
    by (simp add: Let_def R)
  have same: "tempPath s idx = Some payload \<Longrightarrow> (tempPath s)(idx \<mapsto> payload) = tempPath s"
    by (rule map_upd_triv)
  have out: "tempPath s idx = Some payload \<longrightarrow> fst (reassemble ?s') = fst (reassemble s)"
    using same by (auto intro: reassemble_output)
  have quiet: "status s \<noteq> Receiving \<or> card (receivedChunks s) \<noteq> totalChunks s \<longrightarrow>
      \<not> ?won \<and> ?s' = s\<lparr>tempPath := (tempPath s)(idx \<mapsto> payload)\<rparr>"
    by auto
  have unchanged: "tempPath s idx = Some payload \<and>
      (status s \<noteq> Receiving \<or> card (receivedChunks s) \<noteq> totalChunks s) \<longrightarrow>
        reg(uid \<mapsto> ?s') = reg"
  proof
    assume "tempPath s idx = Some payload \<and>
      (status s \<noteq> Receiving \<or> card (receivedChunks s) \<noteq> totalChunks s)"
    then have "?s' = s" using same by auto
    then show "reg(uid \<mapsto> ?s') = reg"
      using reg by (simp add: map_upd_triv)
  qed
  show ?thesis
  proof (intro exI conjI)
    show "receive cfg reg uid idx (totalChunks s) d payload =
      (Inr \<lparr>ack_uploadId = uid, ack_index = idx, ack_complete = ?won\<rparr>, reg(uid \<mapsto> ?s'))"
      by (rule rcv)
    show "receivedChunks ?s' = receivedChunks s" by simp
    show "card (receivedChunks ?s') = card (receivedChunks s)" by simp
    show "tempPath ?s' = (tempPath s)(idx \<mapsto> payload)" by simp
    show "status s \<noteq> Receiving \<or> card (receivedChunks s) \<noteq> totalChunks s \<longrightarrow>
      \<not> ack_complete \<lparr>ack_uploadId = uid, ack_index = idx, ack_complete = ?won\<rparr> \<and>
      ?s' = s\<lparr>tempPath := (tempPath s)(idx \<mapsto> payload)\<rparr>"
    proof
      assume "status s \<noteq> Receiving \<or> card (receivedChunks s) \<noteq> totalChunks s"
      with quiet have "\<not> ?won" and "?s' = s\<lparr>tempPath := (tempPath s)(idx \<mapsto> payload)\<rparr>"
        by blast+
      then show "\<not> ack_complete \<lparr>ack_uploadId = uid, ack_index = idx, ack_complete = ?won\<rparr> \<and>
        ?s' = s\<lparr>tempPath := (tempPath s)(idx \<mapsto> payload)\<rparr>"
        by simp
    qed
    show "tempPath s idx = Some payload \<longrightarrow> fst (reassemble ?s') = fst (reassemble s)"
      by (rule out)
    show "tempPath s idx = Some payload \<and>
      (status s \<noteq> Receiving \<or> card (receivedChunks s) \<noteq> totalChunks s) \<longrightarrow>
        reg(uid \<mapsto> ?s') = reg"
      by (rule unchanged)
  qed
qed

text \<open>
  Claim C2, witness: a session holding chunk 0 of 2 receives chunk 0 again; the chunk is
  acknowledged without completion and the registry is as before.
\<close>

theorem receive_duplicate_idempotent_witness:
  "\<exists>a. receive \<lparr>chunkSizeLimit = 4\<rparr> [''u1'' \<mapsto> half_done] ''u1'' 0 2 2 [1, 2] =
          (Inr a, [''u1'' \<mapsto> half_done]) \<and> \<not> ack_complete a"
proof -
  let ?s = "\<lparr>uploadId = ''u1'', totalChunks = 2, receivedChunks = {0}, chunkSize = 2,
             status = Receiving, tempPath = [0 \<mapsto> [1, 2::8 word]]\<rparr>"
  let ?reg = "[''u1'' \<mapsto> ?s]"
  have h1: "getSession ?reg ''u1'' = Some ?s" by (simp add: getSession_def)
  have h2: "0 \<in> receivedChunks ?s" by simp
  have h3: "0 < totalChunks ?s" by simp
  have h4: "length [1, 2::8 word] \<le> chunkSizeLimit \<lparr>chunkSizeLimit = 4\<rparr>" by simp
  have h5: "[1, 2::8 word] \<noteq> [] \<or> 0 + 1 = totalChunks ?s" by simp
  show ?thesis
    using receive_duplicate_idempotent [OF h1 h2 h3 h4 h5, of 2]
    by (auto simp: half_done_def)
qed

end
